theory Spec2Isabelle
  imports Main "HOL-Library.Sublist"
begin

section \<open>Strings\<close>

text \<open>
  A JavaScript string is a sequence of UTF-16 code units: a list of numbers below 65536.
  The strings of an HTTP request (tags, values, query parameters) and the string
  literals of the code are written as HOL strings, one \<^typ>\<open>char\<close> per code unit below
  256; \<open>units\<close> reads such a string as a JavaScript string.
\<close>

type_synonym js_string = "nat list"

definition units :: "string \<Rightarrow> js_string" where
  "units s = map of_char s"

text \<open>
  \<open>String.prototype.toLowerCase\<close> follows the Unicode default case conversion. The model
  is exact on strings of ASCII, Latin-1 and the unaccented Greek letters:
  \<^item> \<open>A\<close>..\<open>Z\<close> (65..90), the Latin-1 capitals 192..222 other than the multiplication
    sign 215, and the Greek capitals 913..937 (930 is unassigned) map to the code unit 32
    above;
  \<^item> the capital sigma 931 maps to the final small sigma 962 when it ends a word: when a
    cased letter stands before it, case-ignorable code units skipped, and none stands
    after it, case-ignorable code units skipped; otherwise to the small sigma 963;
  \<^item> every other code unit is left as it is (JavaScript maps the other cased letters of
    Unicode too; they are outside the model).
\<close>

definition lower_unit :: "nat \<Rightarrow> nat" where
  "lower_unit u =
     (if (65 \<le> u \<and> u \<le> 90) \<or> (192 \<le> u \<and> u \<le> 222 \<and> u \<noteq> 215) \<or>
         (913 \<le> u \<and> u \<le> 937 \<and> u \<noteq> 930)
      then u + 32 else u)"

definition cased :: "nat \<Rightarrow> bool" where
  "cased u =
     ((65 \<le> u \<and> u \<le> 90) \<or> (97 \<le> u \<and> u \<le> 122) \<or> u = 170 \<or> u = 181 \<or> u = 186 \<or>
      (192 \<le> u \<and> u \<le> 214) \<or> (216 \<le> u \<and> u \<le> 246) \<or> (248 \<le> u \<and> u \<le> 255) \<or>
      (913 \<le> u \<and> u \<le> 937 \<and> u \<noteq> 930) \<or> (945 \<le> u \<and> u \<le> 969))"

definition case_ignorable :: "nat \<Rightarrow> bool" where
  "case_ignorable u = (u \<in> {39, 46, 58, 94, 96, 168, 173, 175, 180, 183, 184})"

text \<open>The next code unit that is not case-ignorable is a cased letter.\<close>

fun cased_next :: "js_string \<Rightarrow> bool" where
  "cased_next [] = False"
| "cased_next (u # us) = (if case_ignorable u then cased_next us else cased u)"

text \<open>
  The condition \<open>Final_Sigma\<close>, from the code units before the sigma (the nearest first)
  and those after it.
\<close>

definition final_sigma :: "js_string \<Rightarrow> js_string \<Rightarrow> bool" where
  "final_sigma preceding following = (cased_next preceding \<and> \<not> cased_next following)"

fun toLowerCase_from :: "js_string \<Rightarrow> js_string \<Rightarrow> js_string" where
  "toLowerCase_from preceding [] = []"
| "toLowerCase_from preceding (u # rest) =
     (if u = 931 \<and> final_sigma preceding rest then 962 else lower_unit u) #
       toLowerCase_from (u # preceding) rest"

definition toLowerCase :: "js_string \<Rightarrow> js_string" where
  "toLowerCase s = toLowerCase_from [] s"

text \<open>\<open>s.startsWith(t)\<close>: \<open>t\<close> is read off the front of \<open>s\<close>, code unit by code unit.\<close>

fun startsWith :: "'a list \<Rightarrow> 'a list \<Rightarrow> bool" where
  "startsWith s [] = True"
| "startsWith [] (c # cs) = False"
| "startsWith (d # ds) (c # cs) = (d = c \<and> startsWith ds cs)"

text \<open>
  \<open>s.includes(t)\<close>: \<open>t\<close> occurs in \<open>s\<close> at some position; the positions are tried
  from the left, the position after the last code unit included.
\<close>

fun str_includes :: "'a list \<Rightarrow> 'a list \<Rightarrow> bool" where
  "str_includes [] t = startsWith [] t"
| "str_includes (d # ds) t = (startsWith (d # ds) t \<or> str_includes ds t)"

text \<open>
  \<open>s.trim()\<close> removes white space and line terminators from both ends. Below 256 these
  are tab, line feed, vertical tab, form feed, carriage return, space and the
  no-break space 160.
\<close>

definition isWhiteSpace :: "char \<Rightarrow> bool" where
  "isWhiteSpace c = ((of_char c :: nat) \<in> {9, 10, 11, 12, 13, 32, 160})"

definition trim :: "string \<Rightarrow> string" where
  "trim s = rev (dropWhile isWhiteSpace (rev (dropWhile isWhiteSpace s)))"

text \<open>\<open>Number.prototype.toString\<close> on an integer: decimal digits, a minus sign when negative.\<close>

fun digits :: "nat \<Rightarrow> js_string" where
  "digits n = (if n < 10 then [48 + n] else digits (n div 10) @ [48 + n mod 10])"

definition toString :: "int \<Rightarrow> js_string" where
  "toString i = (if i < 0 then 45 # digits (nat (- i)) else digits (nat i))"


section \<open>Data model\<close>

text \<open>
  The rows of the tables \<open>folders\<close> and \<open>files\<close> (\<open>database/schema\<close>): \<open>Folder\<close> and
  \<open>File\<close> are the select types of the two tables. Serial and integer columns are
  \<^typ>\<open>int\<close>, nullable columns are options, timestamps are milliseconds.
\<close>

record folder_row =
  folder_id :: int
  folder_name :: js_string
  folder_parentId :: "int option"
  folder_path :: js_string
  folder_createdAt :: int
  folder_updatedAt :: int

record file_row =
  file_id :: int
  file_name :: js_string
  file_folderId :: int
  file_size :: "int option"
  file_extension :: "js_string option"
  file_path :: js_string
  file_createdAt :: int
  file_updatedAt :: int

section \<open>Errors\<close>

text \<open>
  A thrown value or a rejected promise: an \<open>Error\<close> with its message, a \<open>TypeError\<close>
  (an \<open>Error\<close> too, for \<open>instanceof\<close>) with its message, or a value that is no \<open>Error\<close>.
\<close>

datatype exn = Error string | TypeError string | NonError

fun instanceof_Error :: "exn \<Rightarrow> bool" where
  "instanceof_Error (Error m) = True"
| "instanceof_Error (TypeError m) = True"
| "instanceof_Error NonError = False"

fun message :: "exn \<Rightarrow> string" where
  "message (Error m) = m"
| "message (TypeError m) = m"
| "message NonError = []"


section \<open>Searchable items\<close>

text \<open>
  \<open>ISearchable\<close> (\<open>services/search\<close>): \<open>SearchableFolder\<close> and \<open>SearchableFile\<close> wrap a
  row. \<open>OtherSearchable\<close> stands for any other implementer of the interface, by what its
  four methods \<open>getId\<close>, \<open>getName\<close>, \<open>getPath\<close> and \<open>getType\<close> answer.
\<close>

datatype searchable =
    SearchableFolder folder_row
  | SearchableFile file_row
  | OtherSearchable js_string js_string js_string js_string

fun getId :: "searchable \<Rightarrow> js_string" where
  "getId (SearchableFolder folder) = toString (folder_id folder)"
| "getId (SearchableFile file) = toString (file_id file)"
| "getId (OtherSearchable i n p t) = i"

fun getName :: "searchable \<Rightarrow> js_string" where
  "getName (SearchableFolder folder) = folder_name folder"
| "getName (SearchableFile file) = file_name file"
| "getName (OtherSearchable i n p t) = n"

fun getPath :: "searchable \<Rightarrow> js_string" where
  "getPath (SearchableFolder folder) = folder_path folder"
| "getPath (SearchableFile file) = file_path file"
| "getPath (OtherSearchable i n p t) = p"

fun getType :: "searchable \<Rightarrow> js_string" where
  "getType (SearchableFolder folder) = units ''folder''"
| "getType (SearchableFile file) = units ''file''"
| "getType (OtherSearchable i n p t) = t"

text \<open>
  \<open>SearchResultItem\<close> and \<open>ISearchResult\<close>. An optional field that is \<open>null\<close>, \<open>undefined\<close>
  or left out is \<open>None\<close>.
\<close>

record result_item =
  item_id :: js_string
  item_name :: js_string
  item_type :: js_string
  item_path :: js_string
  item_parentId :: "js_string option"
  item_size :: "int option"
  item_modifiedAt :: int
  item_createdAt :: int

record search_result =
  items :: "result_item list"
  totalCount :: nat
  query :: js_string

text \<open>
  \<open>toSearchResult\<close> of the two classes. \<open>x || y\<close> is \<open>y\<close> when \<open>x\<close> is falsy: an empty
  string, the number 0, \<open>null\<close> or \<open>undefined\<close>. So a file of size 0 carries no size.
\<close>

definition SearchableFolder_toSearchResult :: "folder_row \<Rightarrow> result_item" where
  "SearchableFolder_toSearchResult folder =
     \<lparr>item_id = getId (SearchableFolder folder),
      item_name = getName (SearchableFolder folder),
      item_type = getType (SearchableFolder folder),
      item_path = getPath (SearchableFolder folder),
      item_parentId =
        (case folder_parentId folder of
           None \<Rightarrow> None
         | Some p \<Rightarrow> (if toString p = [] then None else Some (toString p))),
      item_size = None,
      item_modifiedAt = folder_updatedAt folder,
      item_createdAt = folder_createdAt folder\<rparr>"

definition SearchableFile_toSearchResult :: "file_row \<Rightarrow> result_item" where
  "SearchableFile_toSearchResult file =
     \<lparr>item_id = getId (SearchableFile file),
      item_name = getName (SearchableFile file),
      item_type = getType (SearchableFile file),
      item_path = getPath (SearchableFile file),
      item_parentId =
        (if toString (file_folderId file) = [] then None
         else Some (toString (file_folderId file))),
      item_size =
        (case file_size file of
           None \<Rightarrow> None
         | Some n \<Rightarrow> (if n = 0 then None else Some n)),
      item_modifiedAt = file_updatedAt file,
      item_createdAt = file_createdAt file\<rparr>"


section \<open>Search criteria\<close>

text \<open>
  \<open>ISearchCriteria\<close> (\<open>services/search\<close>): an object with a method \<open>execute\<close>. The five
  classes are \<open>NameSearchCriteria\<close>, \<open>PathSearchCriteria\<close>, \<open>TypeSearchCriteria\<close>,
  \<open>AndSearchCriteria\<close> and \<open>OrSearchCriteria\<close>, here \<open>NameSearch\<close>, \<open>PathSearch\<close>,
  \<open>TypeSearch\<close>, \<open>AndSearch\<close> and \<open>OrSearch\<close> (the class names are the constructors of the
  controller's builder below). A constructor stores its argument as it is given: the
  type checker asks for a string, the controller passes \<open>data.value\<close>, which can be
  \<open>undefined\<close> (\<open>None\<close>). \<open>OtherCriteria\<close> stands for any other implementer of the
  interface, by what its \<open>execute\<close> answers or throws.
\<close>

datatype search_criteria =
    NameSearch "js_string option"
  | PathSearch "js_string option"
  | TypeSearch "js_string option"
  | AndSearch "search_criteria list"
  | OrSearch "search_criteria list"
  | OtherCriteria "searchable \<Rightarrow> exn + bool"

text \<open>
  \<open>this.query.toLowerCase()\<close> on an \<open>undefined\<close> query throws a \<open>TypeError\<close>. The wording
  of its message is the JavaScript engine's; the model fixes one wording, and nothing
  below depends on it.
\<close>

definition query_undefined :: exn where
  "query_undefined = TypeError ''undefined is not an object (evaluating this.query.toLowerCase)''"

text \<open>
  \<open>execute\<close> of the five classes. \<open>every_execute\<close> is
  \<open>this.criteria.every(criteria => criteria.execute(item))\<close> and \<open>some_execute\<close> is
  \<open>this.criteria.some(criteria => criteria.execute(item))\<close>: the children are tried from the
  left; \<open>every\<close> stops at the first false, \<open>some\<close> at the first true, and a child that
  throws leaves the whole call.
\<close>

fun execute :: "search_criteria \<Rightarrow> searchable \<Rightarrow> exn + bool"
  and every_execute :: "search_criteria list \<Rightarrow> searchable \<Rightarrow> exn + bool"
  and some_execute :: "search_criteria list \<Rightarrow> searchable \<Rightarrow> exn + bool" where
  "execute (NameSearch q) item =
     (case q of
        None \<Rightarrow> Inl query_undefined
      | Some s \<Rightarrow> Inr (str_includes (toLowerCase (getName item)) (toLowerCase s)))"
| "execute (PathSearch q) item =
     (case q of
        None \<Rightarrow> Inl query_undefined
      | Some s \<Rightarrow> Inr (str_includes (toLowerCase (getPath item)) (toLowerCase s)))"
| "execute (TypeSearch t) item = Inr (Some (getType item) = t)"
| "execute (AndSearch criteria) item = every_execute criteria item"
| "execute (OrSearch criteria) item = some_execute criteria item"
| "execute (OtherCriteria f) item = f item"
| "every_execute [] item = Inr True"
| "every_execute (c # cs) item =
     (case execute c item of
        Inl e \<Rightarrow> Inl e
      | Inr b \<Rightarrow> (if b then every_execute cs item else Inr False))"
| "some_execute [] item = Inr False"
| "some_execute (c # cs) item =
     (case execute c item of
        Inl e \<Rightarrow> Inl e
      | Inr b \<Rightarrow> (if b then Inr True else some_execute cs item))"


section \<open>Search engine\<close>

text \<open>
  \<open>SearchEngine.search\<close>: \<open>items.filter(item => criteria.execute(item))\<close>. The candidates
  are tried from the left, and a throw of \<open>execute\<close> leaves the whole call.
\<close>

fun SearchEngine_search :: "searchable list \<Rightarrow> search_criteria \<Rightarrow> exn + searchable list" where
  "SearchEngine_search [] criteria = Inr []"
| "SearchEngine_search (item # rest) criteria =
     (case execute criteria item of
        Inl e \<Rightarrow> Inl e
      | Inr b \<Rightarrow>
         (case SearchEngine_search rest criteria of
            Inl e \<Rightarrow> Inl e
          | Inr kept \<Rightarrow> Inr (if b then item # kept else kept)))"


section \<open>Search service\<close>

text \<open>
  The data provider (\<open>ISearchDataProvider\<close>, implemented by
  \<open>RepositorySearchDataProvider\<close> over the two repositories and by the mock of the test
  suite): \<open>getFolders\<close> and \<open>getFiles\<close> each answer with the whole collection or reject.
  \<open>settlesFirst\<close> is the one of the two that settles first when both are called. A call
  of the provider is recorded, so that what a search fetched can be stated.
\<close>

datatype fetch = GetFolders | GetFiles

record data_provider =
  getFolders :: "exn + folder_row list"
  getFiles :: "exn + file_row list"
  settlesFirst :: fetch

text \<open>
  \<open>Promise.all\<close> of the two fetches: both results when both fulfil, else the rejection
  that comes first.
\<close>

definition promise_all :: "fetch \<Rightarrow> exn + 'a \<Rightarrow> exn + 'b \<Rightarrow> exn + 'a \<times> 'b" where
  "promise_all first folders files =
     (case (folders, files) of
        (Inr a, Inr b) \<Rightarrow> Inr (a, b)
      | (Inl e, Inr b) \<Rightarrow> Inl e
      | (Inr a, Inl e) \<Rightarrow> Inl e
      | (Inl e1, Inl e2) \<Rightarrow> Inl (if first = GetFolders then e1 else e2))"

text \<open>
  The options of \<open>SearchService.search\<close>; a field left out is \<open>None\<close>, and leaving the
  options out is \<open>no_options\<close>.
\<close>

record search_options =
  includeFiles :: "bool option"
  includeFolders :: "bool option"
  searchInPath :: "bool option"

definition no_options :: search_options where
  "no_options = \<lparr>includeFiles = None, includeFolders = None, searchInPath = None\<rparr>"

text \<open>
  The class \<open>SearchService\<close>: a data provider and a search engine, which is any object
  with the method \<open>search\<close>; the constructor's default is a \<open>SearchEngine\<close>.
\<close>

record search_service =
  dataProvider :: data_provider
  searchEngine :: "searchable list \<Rightarrow> search_criteria \<Rightarrow> exn + searchable list"

definition SearchService :: "data_provider \<Rightarrow> search_service" where
  "SearchService provider = \<lparr>dataProvider = provider, searchEngine = SearchEngine_search\<rparr>"

text \<open>
  The conversion of the results, in both methods: \<open>results.map(...)\<close> with the two
  \<open>instanceof\<close> tests, and the throw for any other item.
\<close>

fun toSearchResults :: "searchable list \<Rightarrow> exn + result_item list" where
  "toSearchResults [] = Inr []"
| "toSearchResults (SearchableFolder folder # rest) =
     (case toSearchResults rest of
        Inl e \<Rightarrow> Inl e
      | Inr converted \<Rightarrow> Inr (SearchableFolder_toSearchResult folder # converted))"
| "toSearchResults (SearchableFile file # rest) =
     (case toSearchResults rest of
        Inl e \<Rightarrow> Inl e
      | Inr converted \<Rightarrow> Inr (SearchableFile_toSearchResult file # converted))"
| "toSearchResults (OtherSearchable i n p t # rest) =
     Inl (Error ''Unknown searchable item type'')"

text \<open>
  \<open>SearchService.search(query, options)\<close>. The three options default to true in the
  destructuring. A collection that is not included is not fetched: its place is taken by
  \<open>Promise.resolve([])\<close>.
\<close>

definition SearchService_search ::
  "search_service \<Rightarrow> js_string \<Rightarrow> search_options \<Rightarrow> (exn + search_result) \<times> fetch list" where
  "SearchService_search svc q options =
     (let includeFiles' = (case includeFiles options of None \<Rightarrow> True | Some b \<Rightarrow> b);
          includeFolders' = (case includeFolders options of None \<Rightarrow> True | Some b \<Rightarrow> b);
          searchInPath' = (case searchInPath options of None \<Rightarrow> True | Some b \<Rightarrow> b);
          fetches = (if includeFolders' then [GetFolders] else []) @
                    (if includeFiles' then [GetFiles] else [])
      in (case promise_all (settlesFirst (dataProvider svc))
                 (if includeFolders' then getFolders (dataProvider svc) else Inr [])
                 (if includeFiles' then getFiles (dataProvider svc) else Inr []) of
            Inl e \<Rightarrow> Inl e
          | Inr (folders, files) \<Rightarrow>
             (let searchableItems = map SearchableFolder folders @ map SearchableFile files;
                  searchCriteria = [NameSearch (Some q)] @
                                   (if searchInPath' then [PathSearch (Some q)] else []);
                  criteria = OrSearch searchCriteria
              in case searchEngine svc searchableItems criteria of
                   Inl e \<Rightarrow> Inl e
                 | Inr results \<Rightarrow>
                    (case toSearchResults results of
                       Inl e \<Rightarrow> Inl e
                     | Inr converted \<Rightarrow>
                        Inr \<lparr>items = converted, totalCount = length converted, query = q\<rparr>)),
          fetches))"

text \<open>\<open>SearchService.advancedSearch(criteria)\<close>.\<close>

definition SearchService_advancedSearch ::
  "search_service \<Rightarrow> search_criteria \<Rightarrow> (exn + search_result) \<times> fetch list" where
  "SearchService_advancedSearch svc criteria =
     (case promise_all (settlesFirst (dataProvider svc))
             (getFolders (dataProvider svc)) (getFiles (dataProvider svc)) of
        Inl e \<Rightarrow> Inl e
      | Inr (folders, files) \<Rightarrow>
         (let searchableItems = map SearchableFolder folders @ map SearchableFile files
          in case searchEngine svc searchableItems criteria of
               Inl e \<Rightarrow> Inl e
             | Inr results \<Rightarrow>
                (case toSearchResults results of
                   Inl e \<Rightarrow> Inl e
                 | Inr converted \<Rightarrow>
                    Inr \<lparr>items = converted, totalCount = length converted,
                         query = units ''Advanced Search''\<rparr>)),
      [GetFolders, GetFiles])"


section \<open>Search controller\<close>

subsection \<open>Criteria builder\<close>

text \<open>
  A criteria description as the route \<open>POST /advanced\<close> declares it: a \<open>type\<close> tag, an
  optional \<open>value\<close> and an optional array \<open>children\<close>. The builder reads the children
  of an \<open>and\<close> or \<open>or\<close> node as descriptions again.
\<close>

datatype criteria_data =
  CriteriaData (data_type: string) (data_value: "string option")
    (data_children: "criteria_data list option")

text \<open>
  The objects the builder constructs, each with the arguments its constructor was given:
  \<open>data.value\<close> is passed on as it is, present or not.
\<close>

datatype criteria =
    NameSearchCriteria "string option"
  | PathSearchCriteria "string option"
  | TypeSearchCriteria "string option"
  | AndSearchCriteria "criteria list"
  | OrSearchCriteria "criteria list"

text \<open>
  \<open>data.children.map(...)\<close> on a node without \<open>children\<close> throws a \<open>TypeError\<close>. The
  wording of its message is the JavaScript engine's; the model fixes one wording, and
  nothing below depends on it.
\<close>

definition children_undefined :: exn where
  "children_undefined = TypeError ''undefined is not an object (evaluating data.children.map)''"

text \<open>
  \<open>buildCriteria\<close>, the inner function of \<open>buildSearchCriteria\<close>: a \<open>switch\<close> on
  \<open>data.type\<close>. \<open>buildCriteria_map\<close> is \<open>children.map(child => buildCriteria(child))\<close>:
  the children are built from the left, and the first throw leaves the whole call.
\<close>

fun buildCriteria :: "criteria_data \<Rightarrow> exn + criteria"
  and buildCriteria_map :: "criteria_data list \<Rightarrow> exn + criteria list" where
  "buildCriteria (CriteriaData t v ch) =
     (if t = ''name'' then Inr (NameSearchCriteria v)
      else if t = ''path'' then Inr (PathSearchCriteria v)
      else if t = ''type'' then Inr (TypeSearchCriteria v)
      else if t = ''and'' then
        (case ch of
           None \<Rightarrow> Inl children_undefined
         | Some cs \<Rightarrow>
            (case buildCriteria_map cs of
               Inl e \<Rightarrow> Inl e
             | Inr built \<Rightarrow> Inr (AndSearchCriteria built)))
      else if t = ''or'' then
        (case ch of
           None \<Rightarrow> Inl children_undefined
         | Some cs \<Rightarrow>
            (case buildCriteria_map cs of
               Inl e \<Rightarrow> Inl e
             | Inr built \<Rightarrow> Inr (OrSearchCriteria built)))
      else Inl (Error (''Unknown criteria type: '' @ t)))"
| "buildCriteria_map [] = Inr []"
| "buildCriteria_map (d # ds) =
     (case buildCriteria d of
        Inl e \<Rightarrow> Inl e
      | Inr c \<Rightarrow>
         (case buildCriteria_map ds of
            Inl e \<Rightarrow> Inl e
          | Inr cs \<Rightarrow> Inr (c # cs)))"

definition buildSearchCriteria :: "criteria_data list \<Rightarrow> exn + criteria" where
  "buildSearchCriteria criteriaData =
     (if length criteriaData = 1 then buildCriteria (criteriaData ! 0)
      else (case buildCriteria_map criteriaData of
              Inl e \<Rightarrow> Inl e
            | Inr built \<Rightarrow> Inr (AndSearchCriteria built)))"

text \<open>The five tags the \<open>switch\<close> has a case for.\<close>

definition recognized :: "string \<Rightarrow> bool" where
  "recognized t = (t \<in> {''name'', ''path'', ''type'', ''and'', ''or''})"

text \<open>
  The nodes of a description tree: the node itself and, under an \<open>and\<close> or \<open>or\<close> node,
  the nodes of its children, in the order the builder meets them.
\<close>

fun nodes :: "criteria_data \<Rightarrow> criteria_data list"
  and nodes_list :: "criteria_data list \<Rightarrow> criteria_data list" where
  "nodes (CriteriaData t v ch) =
     CriteriaData t v ch #
       (if t = ''and'' \<or> t = ''or'' then (case ch of None \<Rightarrow> [] | Some cs \<Rightarrow> nodes_list cs)
        else [])"
| "nodes_list [] = []"
| "nodes_list (d # ds) = nodes d @ nodes_list ds"

text \<open>A composite node is well formed when it has its \<open>children\<close>.\<close>

definition has_children :: "criteria_data \<Rightarrow> bool" where
  "has_children d =
     (if data_type d = ''and'' \<or> data_type d = ''or'' then data_children d \<noteq> None else True)"


subsection \<open>Routes\<close>

text \<open>
  The service the controller holds, as what its two methods answer: a Search Result or
  a rejection. Calls to the service, calls of the builder and \<open>console.error\<close> are
  recorded as events beside the response.
\<close>

record service =
  search :: "string \<Rightarrow> search_options \<Rightarrow> exn + search_result"
  advancedSearch :: "criteria \<Rightarrow> exn + search_result"

datatype event =
    Search string search_options
  | BuildSearchCriteria "criteria_data list"
  | AdvancedSearch criteria
  | ConsoleError string exn

datatype response = Success search_result | Failure string

text \<open>
  \<open>GET /\<close>. The query parameters \<open>q\<close>, \<open>files\<close>, \<open>folders\<close> and \<open>path\<close> are strings or
  absent. \<open>!searchQuery\<close> holds for an absent and for an empty \<open>q\<close>.
\<close>

definition get_search ::
  "service \<Rightarrow> string option \<Rightarrow> string option \<Rightarrow> string option \<Rightarrow> string option
     \<Rightarrow> response \<times> event list" where
  "get_search svc q files folders path =
     (let options = \<lparr>includeFiles = Some (files \<noteq> Some ''false''),
                     includeFolders = Some (folders \<noteq> Some ''false''),
                     searchInPath = Some (path \<noteq> Some ''false'')\<rparr>
      in case q of
           None \<Rightarrow> (Failure ''Search query is required and cannot be empty'', [])
         | Some searchQuery \<Rightarrow>
            (if searchQuery = [] \<or> length (trim searchQuery) = 0
             then (Failure ''Search query is required and cannot be empty'', [])
             else (case search svc searchQuery options of
                     Inr results \<Rightarrow> (Success results, [Search searchQuery options])
                   | Inl e \<Rightarrow>
                      (Failure (if instanceof_Error e then message e else ''Search failed''),
                       [Search searchQuery options, ConsoleError ''Search error:'' e]))))"

text \<open>
  \<open>POST /advanced\<close>. The field \<open>criteria\<close> of the body is any JSON value or absent; only
  an array's elements are read, as criteria descriptions.
\<close>

datatype criteria_field =
    JUndefined
  | JNull
  | JBoolean bool
  | JNumber int
  | JString string
  | JObject
  | JArray "criteria_data list"

fun falsy :: "criteria_field \<Rightarrow> bool" where
  "falsy JUndefined = True"
| "falsy JNull = True"
| "falsy (JBoolean b) = (\<not> b)"
| "falsy (JNumber n) = (n = 0)"
| "falsy (JString s) = (s = [])"
| "falsy JObject = False"
| "falsy (JArray cs) = False"

fun isArray :: "criteria_field \<Rightarrow> bool" where
  "isArray (JArray cs) = True"
| "isArray c = False"

text \<open>
  The elements of \<open>criteria\<close>. The handler reads them (and \<open>criteria.length\<close>) only once
  \<open>Array.isArray(criteria)\<close> has held, so the value on a non-array is never used.
\<close>

fun elements :: "criteria_field \<Rightarrow> criteria_data list" where
  "elements (JArray cs) = cs"
| "elements c = []"

definition post_advanced :: "service \<Rightarrow> criteria_field \<Rightarrow> response \<times> event list" where
  "post_advanced svc criteria =
     (if falsy criteria \<or> \<not> isArray criteria \<or> length (elements criteria) = 0
      then (Failure ''Search criteria are required'', [])
      else (case buildSearchCriteria (elements criteria) of
              Inl e \<Rightarrow>
                (Failure (if instanceof_Error e then message e else ''Advanced search failed''),
                 [BuildSearchCriteria (elements criteria),
                  ConsoleError ''Advanced search error:'' e])
            | Inr searchCriteria \<Rightarrow>
               (case advancedSearch svc searchCriteria of
                  Inr results \<Rightarrow>
                    (Success results,
                     [BuildSearchCriteria (elements criteria), AdvancedSearch searchCriteria])
                | Inl e \<Rightarrow>
                   (Failure (if instanceof_Error e then message e else ''Advanced search failed''),
                    [BuildSearchCriteria (elements criteria), AdvancedSearch searchCriteria,
                     ConsoleError ''Advanced search error:'' e]))))"

subsection \<open>The routes with their schemas\<close>

text \<open>
  Each route declares a schema, which the framework checks before it calls the handler: a
  request that does not fit is refused with the framework's validation error and the
  handler does not run. \<open>GET /\<close> declares \<open>q\<close> a string and \<open>files\<close>, \<open>folders\<close>, \<open>path\<close>
  optional strings: only a request without \<open>q\<close> is refused. \<open>POST /advanced\<close> declares the
  body an object whose field \<open>criteria\<close> is an array of objects with a string \<open>type\<close>, an
  optional string \<open>value\<close> and optional \<open>children\<close>. The body of a request is \<open>None\<close> when
  it is absent or no object, else the value of its field \<open>criteria\<close> (\<open>JUndefined\<close> when it
  has none): an absent body and a \<open>criteria\<close> that is absent or no array are refused; the
  elements of an array are descriptions of that shape already.
\<close>

datatype http_response = Refused | Handled response

definition route_get_search ::
  "service \<Rightarrow> string option \<Rightarrow> string option \<Rightarrow> string option \<Rightarrow> string option
     \<Rightarrow> http_response \<times> event list" where
  "route_get_search svc q files folders path =
     (case q of
        None \<Rightarrow> (Refused, [])
      | Some s \<Rightarrow>
         (Handled (fst (get_search svc (Some s) files folders path)),
          snd (get_search svc (Some s) files folders path)))"

definition route_post_advanced ::
  "service \<Rightarrow> criteria_field option \<Rightarrow> http_response \<times> event list" where
  "route_post_advanced svc body =
     (case body of
        None \<Rightarrow> (Refused, [])
      | Some criteria \<Rightarrow>
         (if isArray criteria
          then (Handled (fst (post_advanced svc criteria)), snd (post_advanced svc criteria))
          else (Refused, [])))"

subsection \<open>The controller's service\<close>

text \<open>
  The constructor calls of the builder, as the objects of the library they make.
\<close>

fun instantiate :: "criteria \<Rightarrow> search_criteria" where
  "instantiate (NameSearchCriteria v) = NameSearch (map_option units v)"
| "instantiate (PathSearchCriteria v) = PathSearch (map_option units v)"
| "instantiate (TypeSearchCriteria v) = TypeSearch (map_option units v)"
| "instantiate (AndSearchCriteria cs) = AndSearch (map instantiate cs)"
| "instantiate (OrSearchCriteria cs) = OrSearch (map instantiate cs)"

text \<open>
  The service of the controller's constructor: a \<open>SearchService\<close> over a data provider,
  with the engine of the library.
\<close>

definition controller_service :: "data_provider \<Rightarrow> service" where
  "controller_service provider =
     \<lparr>search = \<lambda>q options. fst (SearchService_search (SearchService provider) (units q) options),
      advancedSearch = \<lambda>c. fst (SearchService_advancedSearch (SearchService provider) (instantiate c))\<rparr>"


section \<open>Notions of the specification\<close>

text \<open>
  Two strings of code units below 256 are equal up to case when they have the same
  length and, position by position, the same code unit or a capital (\<open>A\<close>..\<open>Z\<close>, or a
  Latin-1 capital) and its small letter, 32 above. This definition does not mention
  \<open>toLowerCase\<close>.
\<close>

definition capital :: "nat \<Rightarrow> bool" where
  "capital u = ((65 \<le> u \<and> u \<le> 90) \<or> (192 \<le> u \<and> u \<le> 222 \<and> u \<noteq> 215))"

definition same_letter :: "nat \<Rightarrow> nat \<Rightarrow> bool" where
  "same_letter u v = (u = v \<or> (capital u \<and> v = u + 32) \<or> (capital v \<and> u = v + 32))"

definition equal_ignoring_case :: "js_string \<Rightarrow> js_string \<Rightarrow> bool" where
  "equal_ignoring_case s t = list_all2 same_letter s t"

text \<open>
  A criteria object is built as the types of the constructors ask when every name and
  path criterion in it holds a string and it is made of the five classes only.
\<close>

fun string_queries :: "search_criteria \<Rightarrow> bool"
  and string_queries_list :: "search_criteria list \<Rightarrow> bool" where
  "string_queries (NameSearch q) = (q \<noteq> None)"
| "string_queries (PathSearch q) = (q \<noteq> None)"
| "string_queries (TypeSearch t) = True"
| "string_queries (AndSearch cs) = string_queries_list cs"
| "string_queries (OrSearch cs) = string_queries_list cs"
| "string_queries (OtherCriteria f) = False"
| "string_queries_list [] = True"
| "string_queries_list (c # cs) = (string_queries c \<and> string_queries_list cs)"


section \<open>The fixture of the test suite\<close>

text \<open>
  \<open>mockFolders\<close>, \<open>mockFiles\<close> and the \<open>MockSearchDataProvider\<close> of the search tests.
  The tests stamp every row with the time of the run; the model stamps them with 0.
\<close>

definition mockFolders :: "folder_row list" where
  "mockFolders =
     [\<lparr>folder_id = 1, folder_name = units ''Documents'', folder_parentId = None,
       folder_path = units ''/Documents'', folder_createdAt = 0, folder_updatedAt = 0\<rparr>,
      \<lparr>folder_id = 2, folder_name = units ''Images'', folder_parentId = Some 1,
       folder_path = units ''/Documents/Images'', folder_createdAt = 0, folder_updatedAt = 0\<rparr>,
      \<lparr>folder_id = 3, folder_name = units ''Videos'', folder_parentId = None,
       folder_path = units ''/Videos'', folder_createdAt = 0, folder_updatedAt = 0\<rparr>]"

definition mockFiles :: "file_row list" where
  "mockFiles =
     [\<lparr>file_id = 1, file_name = units ''document.pdf'', file_folderId = 1,
       file_size = Some 1024, file_extension = Some (units ''pdf''),
       file_path = units ''/Documents/document.pdf'', file_createdAt = 0, file_updatedAt = 0\<rparr>,
      \<lparr>file_id = 2, file_name = units ''photo.jpg'', file_folderId = 2,
       file_size = Some 2048, file_extension = Some (units ''jpg''),
       file_path = units ''/Documents/Images/photo.jpg'', file_createdAt = 0,
       file_updatedAt = 0\<rparr>,
      \<lparr>file_id = 3, file_name = units ''video.mp4'', file_folderId = 3,
       file_size = Some 4096, file_extension = Some (units ''mp4''),
       file_path = units ''/Videos/video.mp4'', file_createdAt = 0, file_updatedAt = 0\<rparr>]"

definition MockSearchDataProvider :: data_provider where
  "MockSearchDataProvider =
     \<lparr>getFolders = Inr mockFolders, getFiles = Inr mockFiles, settlesFirst = GetFolders\<rparr>"

text \<open>
  A folder whose name is the two Greek capitals alpha and sigma, and the one-letter
  string of the capital sigma.
\<close>

definition sigma :: js_string where
  "sigma = [931]"

definition alpha_sigma_folder :: folder_row where
  "alpha_sigma_folder =
     \<lparr>folder_id = 4, folder_name = [913, 931], folder_parentId = None,
      folder_path = [47, 913, 931], folder_createdAt = 0, folder_updatedAt = 0\<rparr>"


section \<open>The criteria builder\<close>

text \<open>The equations of \<open>buildCriteria\<close> and \<open>nodes\<close>, one per tag.\<close>

lemma buildCriteria_unrecognized:
  "\<not> recognized t \<Longrightarrow>
     buildCriteria (CriteriaData t v ch) = Inl (Error (''Unknown criteria type: '' @ t))"
  by (simp add: recognized_def)

lemma buildCriteria_composite:
  "buildCriteria (CriteriaData ''and'' v None) = Inl children_undefined"
  "buildCriteria (CriteriaData ''or'' v None) = Inl children_undefined"
  "buildCriteria (CriteriaData ''and'' v (Some cs)) =
     (case buildCriteria_map cs of Inl e \<Rightarrow> Inl e | Inr built \<Rightarrow> Inr (AndSearchCriteria built))"
  "buildCriteria (CriteriaData ''or'' v (Some cs)) =
     (case buildCriteria_map cs of Inl e \<Rightarrow> Inl e | Inr built \<Rightarrow> Inr (OrSearchCriteria built))"
  by simp_all

lemma buildCriteria_leaf:
  "buildCriteria (CriteriaData ''name'' v ch) = Inr (NameSearchCriteria v)"
  "buildCriteria (CriteriaData ''path'' v ch) = Inr (PathSearchCriteria v)"
  "buildCriteria (CriteriaData ''type'' v ch) = Inr (TypeSearchCriteria v)"
  by simp_all

lemma nodes_leaf:
  "t \<noteq> ''and'' \<Longrightarrow> t \<noteq> ''or'' \<Longrightarrow> nodes (CriteriaData t v ch) = [CriteriaData t v ch]"
  by simp

lemma nodes_composite:
  "nodes (CriteriaData ''and'' v (Some cs)) = CriteriaData ''and'' v (Some cs) # nodes_list cs"
  "nodes (CriteriaData ''or'' v (Some cs)) = CriteriaData ''or'' v (Some cs) # nodes_list cs"
  "nodes (CriteriaData ''and'' v None) = [CriteriaData ''and'' v None]"
  "nodes (CriteriaData ''or'' v None) = [CriteriaData ''or'' v None]"
  by simp_all

lemma nodes_self: "d \<in> set (nodes d)"
  by (cases d) (simp only: nodes.simps list.set insertI1)

declare nodes.simps [simp del] buildCriteria.simps [simp del]

lemma recognized_cases:
  "recognized t \<longleftrightarrow> t = ''name'' \<or> t = ''path'' \<or> t = ''type'' \<or> t = ''and'' \<or> t = ''or''"
  by (simp add: recognized_def)

lemma unknown_node_fails:
  "(\<exists>n \<in> set (nodes d). \<not> recognized (data_type n)) \<Longrightarrow> isl (buildCriteria d)"
  "(\<exists>n \<in> set (nodes_list ds). \<not> recognized (data_type n)) \<Longrightarrow> isl (buildCriteria_map ds)"
proof (induction d and ds rule: buildCriteria_buildCriteria_map.induct)
  case (1 t v ch)
  consider (unknown) "\<not> recognized t"
    | (leaf) "t = ''name'' \<or> t = ''path'' \<or> t = ''type''"
    | (composite) "t = ''and'' \<or> t = ''or''"
    using recognized_cases by blast
  then show ?case
  proof cases
    case unknown
    then show ?thesis
      by (simp add: buildCriteria_unrecognized)
  next
    case leaf
    then have "nodes (CriteriaData t v ch) = [CriteriaData t v ch]" and "recognized t"
      by (auto simp: recognized_cases nodes_leaf)
    with "1.prems" show ?thesis by simp
  next
    case composite
    then have rec: "recognized t" by (auto simp: recognized_cases)
    show ?thesis
    proof (cases ch)
      case None
      with composite show ?thesis
        by (auto simp only: buildCriteria_composite sum.disc)
    next
      case (Some cs)
      with composite "1.prems" rec
      have ex: "\<exists>n \<in> set (nodes_list cs). \<not> recognized (data_type n)"
        by (auto simp: nodes_composite)
      from composite show ?thesis
      proof
        assume t: "t = ''and''"
        then have "isl (buildCriteria_map cs)"
          using "1.IH"(1) [OF _ _ _ _ Some ex] by simp
        with t Some show ?thesis
          by (auto simp: buildCriteria_composite isl_def)
      next
        assume t: "t = ''or''"
        then have "isl (buildCriteria_map cs)"
          using "1.IH"(2) [OF _ _ _ _ _ Some ex] by simp
        with t Some show ?thesis
          by (auto simp: buildCriteria_composite isl_def)
      qed
    qed
  qed
next
  case 2
  then show ?case by simp
next
  case (3 d ds)
  show ?case
  proof (cases "\<exists>n \<in> set (nodes d). \<not> recognized (data_type n)")
    case True
    then have "isl (buildCriteria d)" by (rule "3.IH"(1))
    then show ?thesis by (auto simp: isl_def)
  next
    case False
    with "3.prems" have ex: "\<exists>n \<in> set (nodes_list ds). \<not> recognized (data_type n)"
      by auto
    show ?thesis
    proof (cases "buildCriteria d")
      case (Inl e)
      then show ?thesis by simp
    next
      case (Inr c)
      then have "isl (buildCriteria_map ds)" using "3.IH"(2) ex by simp
      with Inr show ?thesis by (auto simp: isl_def)
    qed
  qed
qed


lemma build_error_names_node:
  "(\<forall>n \<in> set (nodes d). has_children n) \<Longrightarrow> buildCriteria d = Inl e \<Longrightarrow>
     (\<exists>n \<in> set (nodes d). \<not> recognized (data_type n) \<and>
        e = Error (''Unknown criteria type: '' @ data_type n))"
  "(\<forall>n \<in> set (nodes_list ds). has_children n) \<Longrightarrow> buildCriteria_map ds = Inl e \<Longrightarrow>
     (\<exists>n \<in> set (nodes_list ds). \<not> recognized (data_type n) \<and>
        e = Error (''Unknown criteria type: '' @ data_type n))"
proof (induction d and ds arbitrary: e and e rule: buildCriteria_buildCriteria_map.induct)
  case (1 t v ch)
  consider (unknown) "\<not> recognized t"
    | (leaf) "t = ''name'' \<or> t = ''path'' \<or> t = ''type''"
    | (composite) "t = ''and'' \<or> t = ''or''"
    using recognized_cases by blast
  then show ?case
  proof cases
    case unknown
    with "1.prems"(2) have "e = Error (''Unknown criteria type: '' @ t)"
      by (simp add: buildCriteria_unrecognized)
    moreover have "CriteriaData t v ch \<in> set (nodes (CriteriaData t v ch))"
      by (rule nodes_self)
    ultimately show ?thesis using unknown by force
  next
    case leaf
    with "1.prems"(2) show ?thesis
      by (auto simp only: buildCriteria_leaf)
  next
    case composite
    from "1.prems"(1) have "has_children (CriteriaData t v ch)"
      using nodes_self by blast
    with composite obtain cs where Some: "ch = Some cs"
      by (auto simp: has_children_def)
    from "1.prems"(1) composite Some
    have wf: "\<forall>n \<in> set (nodes_list cs). has_children n"
      by (auto simp: nodes_composite)
    from composite show ?thesis
    proof
      assume t: "t = ''and''"
      with "1.prems"(2) Some have "buildCriteria_map cs = Inl e"
        by (auto simp: buildCriteria_composite split: sum.splits)
      then have "\<exists>n \<in> set (nodes_list cs). \<not> recognized (data_type n) \<and>
          e = Error (''Unknown criteria type: '' @ data_type n)"
        using "1.IH"(1) [OF _ _ _ t Some wf] t by simp
      with t Some show ?thesis
        by (auto simp: nodes_composite)
    next
      assume t: "t = ''or''"
      with "1.prems"(2) Some have "buildCriteria_map cs = Inl e"
        by (auto simp: buildCriteria_composite split: sum.splits)
      then have "\<exists>n \<in> set (nodes_list cs). \<not> recognized (data_type n) \<and>
          e = Error (''Unknown criteria type: '' @ data_type n)"
        using "1.IH"(2) [OF _ _ _ _ t Some wf] t by simp
      with t Some show ?thesis
        by (auto simp: nodes_composite)
    qed
  qed
next
  case 2
  then show ?case by simp
next
  case (3 d ds)
  show ?case
  proof (cases "buildCriteria d")
    case (Inl e')
    with "3.prems"(2) have "buildCriteria d = Inl e" by simp
    moreover have "\<forall>n \<in> set (nodes d). has_children n" using "3.prems"(1) by simp
    ultimately have "\<exists>n \<in> set (nodes d). \<not> recognized (data_type n) \<and>
        e = Error (''Unknown criteria type: '' @ data_type n)"
      by (rule "3.IH"(1) [rotated])
    then show ?thesis by auto
  next
    case (Inr c)
    with "3.prems"(2) have "buildCriteria_map ds = Inl e"
      by (simp split: sum.splits)
    moreover have "\<forall>n \<in> set (nodes_list ds). has_children n" using "3.prems"(1) by simp
    ultimately have "\<exists>n \<in> set (nodes_list ds). \<not> recognized (data_type n) \<and>
        e = Error (''Unknown criteria type: '' @ data_type n)"
      using "3.IH"(2) [OF Inr] by blast
    then show ?thesis by auto
  qed
qed

lemma build_error_is_Error:
  "buildCriteria d = Inl e \<Longrightarrow> instanceof_Error e"
  "buildCriteria_map ds = Inl e \<Longrightarrow> instanceof_Error e"
proof (induction d and ds arbitrary: e and e rule: buildCriteria_buildCriteria_map.induct)
  case (1 t v ch)
  then show ?case
    by (auto simp: buildCriteria.simps children_undefined_def
          split: option.splits sum.splits if_splits)
next
  case 2
  then show ?case by simp
next
  case (3 d ds)
  then show ?case
    by (auto split: sum.splits)
qed

lemma buildSearchCriteria_map:
  "buildSearchCriteria cs =
     (if length cs = 1 then map_sum id hd (buildCriteria_map cs)
      else map_sum id AndSearchCriteria (buildCriteria_map cs))"
proof (cases "length cs = 1")
  case True
  then obtain c where "cs = [c]"
    by (cases cs) auto
  then show ?thesis
    by (simp add: buildSearchCriteria_def split: sum.splits)
next
  case False
  then show ?thesis
    by (simp add: buildSearchCriteria_def split: sum.splits)
qed

lemma buildSearchCriteria_Inl:
  "buildSearchCriteria cs = Inl e \<longleftrightarrow> buildCriteria_map cs = Inl e"
  by (cases "buildCriteria_map cs") (simp_all add: buildSearchCriteria_map)

text \<open>
  The builder reads \<open>children\<close> under \<open>and\<close> and \<open>or\<close> only: what stands under the
  \<open>children\<close> of a leaf is no node of the tree it builds.
\<close>

lemma build_ignores_children_of_leaf:
  "buildSearchCriteria
     [CriteriaData ''name'' (Some ''x'') (Some [CriteriaData ''bogus'' None None])] =
     Inr (NameSearchCriteria (Some ''x''))"
  by (simp add: buildSearchCriteria_def buildCriteria_leaf)

text \<open>
  C2. A node whose tag is none of \<open>name\<close>, \<open>path\<close>, \<open>type\<close>, \<open>and\<close>, \<open>or\<close> makes
  \<open>buildCriteria\<close> throw an error whose message carries the tag. Such a node anywhere in
  the tree makes the whole build throw: no criteria object is returned, the route answers
  with the failure carrying the error's message, and the service is not called. When
  every composite node of the tree has its children, the error thrown is the one of an
  unknown node of the tree.
\<close>

theorem unknown_kind_aborts_build:
  "(\<not> recognized (data_type d) \<longrightarrow>
      buildCriteria d = Inl (Error (''Unknown criteria type: '' @ data_type d))) \<and>
   ((\<exists>n \<in> set (nodes_list cs). \<not> recognized (data_type n)) \<longrightarrow>
      (\<exists>e. buildSearchCriteria cs = Inl e \<and>
           post_advanced svc (JArray cs) =
             (Failure (message e),
              [BuildSearchCriteria cs, ConsoleError ''Advanced search error:'' e]))) \<and>
   ((\<exists>n \<in> set (nodes_list cs). \<not> recognized (data_type n)) \<and>
    (\<forall>n \<in> set (nodes_list cs). has_children n) \<longrightarrow>
      (\<exists>n \<in> set (nodes_list cs). \<not> recognized (data_type n) \<and>
         buildSearchCriteria cs = Inl (Error (''Unknown criteria type: '' @ data_type n))))"
proof (intro conjI impI)
  assume "\<not> recognized (data_type d)"
  then show "buildCriteria d = Inl (Error (''Unknown criteria type: '' @ data_type d))"
    by (cases d) (simp add: buildCriteria_unrecognized)
next
  assume ex: "\<exists>n \<in> set (nodes_list cs). \<not> recognized (data_type n)"
  then have "isl (buildCriteria_map cs)"
    by (rule unknown_node_fails(2))
  then obtain e where e: "buildCriteria_map cs = Inl e"
    by (auto simp: isl_def)
  then have b: "buildSearchCriteria cs = Inl e"
    by (simp add: buildSearchCriteria_Inl)
  from e have i: "instanceof_Error e"
    by (rule build_error_is_Error(2))
  from ex have "cs \<noteq> []" by auto
  with b i have "post_advanced svc (JArray cs) =
      (Failure (message e), [BuildSearchCriteria cs, ConsoleError ''Advanced search error:'' e])"
    by (simp add: post_advanced_def)
  with b show "\<exists>e. buildSearchCriteria cs = Inl e \<and>
      post_advanced svc (JArray cs) =
        (Failure (message e), [BuildSearchCriteria cs, ConsoleError ''Advanced search error:'' e])"
    by blast
next
  assume a: "(\<exists>n \<in> set (nodes_list cs). \<not> recognized (data_type n)) \<and>
    (\<forall>n \<in> set (nodes_list cs). has_children n)"
  then have "isl (buildCriteria_map cs)"
    using unknown_node_fails(2) by blast
  then obtain e where e: "buildCriteria_map cs = Inl e"
    by (auto simp: isl_def)
  with a have "\<exists>n \<in> set (nodes_list cs). \<not> recognized (data_type n) \<and>
      e = Error (''Unknown criteria type: '' @ data_type n)"
    using build_error_names_node(2) by blast
  with e show "\<exists>n \<in> set (nodes_list cs). \<not> recognized (data_type n) \<and>
      buildSearchCriteria cs = Inl (Error (''Unknown criteria type: '' @ data_type n))"
    by (auto simp: buildSearchCriteria_Inl)
qed

theorem unknown_kind_aborts_build_witness:
  "buildCriteria (CriteriaData ''bogus'' (Some ''x'') None) =
     Inl (Error ''Unknown criteria type: bogus'') \<and>
   buildSearchCriteria
     [CriteriaData ''name'' (Some ''x'') None,
      CriteriaData ''and'' None (Some [CriteriaData ''bogus'' (Some ''x'') None])] =
     Inl (Error ''Unknown criteria type: bogus'') \<and>
   post_advanced \<lparr>search = \<lambda>q opts. Inl NonError, advancedSearch = \<lambda>c. Inl NonError\<rparr>
     (JArray [CriteriaData ''name'' (Some ''x'') None,
        CriteriaData ''and'' None (Some [CriteriaData ''bogus'' (Some ''x'') None])]) =
     (Failure ''Unknown criteria type: bogus'',
      [BuildSearchCriteria [CriteriaData ''name'' (Some ''x'') None,
          CriteriaData ''and'' None (Some [CriteriaData ''bogus'' (Some ''x'') None])],
       ConsoleError ''Advanced search error:'' (Error ''Unknown criteria type: bogus'')])"
proof -
  let ?d = "CriteriaData ''bogus'' (Some ''x'') None"
  let ?cs = "[CriteriaData ''name'' (Some ''x'') None, CriteriaData ''and'' None (Some [?d])]"
  let ?svc = "\<lparr>search = \<lambda>q opts. Inl NonError, advancedSearch = \<lambda>c. Inl NonError\<rparr>"
  note inst = unknown_kind_aborts_build [of ?d ?cs ?svc]
  have unknown: "\<not> recognized (data_type ?d)"
    by (simp add: recognized_def)
  have "?d \<in> set (nodes_list ?cs)"
    by (simp add: nodes_composite nodes_leaf)
  with unknown have ex: "\<exists>n \<in> set (nodes_list ?cs). \<not> recognized (data_type n)"
    by blast
  have wf: "\<forall>n \<in> set (nodes_list ?cs). has_children n"
    by (simp add: nodes_composite nodes_leaf has_children_def)
  from inst unknown have 1: "buildCriteria ?d = Inl (Error (''Unknown criteria type: '' @ data_type ?d))"
    by blast
  from inst ex obtain e where 2: "buildSearchCriteria ?cs = Inl e"
    and 3: "post_advanced ?svc (JArray ?cs) =
      (Failure (message e), [BuildSearchCriteria ?cs, ConsoleError ''Advanced search error:'' e])"
    by blast
  from inst ex wf obtain n where "n \<in> set (nodes_list ?cs)" "\<not> recognized (data_type n)"
    and 4: "buildSearchCriteria ?cs = Inl (Error (''Unknown criteria type: '' @ data_type n))"
    by blast
  then have "n = ?d"
    by (auto simp: nodes_composite nodes_leaf recognized_def)
  with 4 have 5: "buildSearchCriteria ?cs = Inl (Error ''Unknown criteria type: bogus'')"
    by simp
  with 2 have "e = Error ''Unknown criteria type: bogus''" by simp
  with 1 3 5 show ?thesis by simp
qed

text \<open>
  C3. A list of one description builds that description as it is; any other list builds
  what the description \<open>{type: "and", children: list}\<close> builds, the same criteria object or
  the same error.
\<close>

theorem implicit_and:
  "buildSearchCriteria [c] = buildCriteria c \<and>
   (length cs \<noteq> 1 \<longrightarrow>
      buildSearchCriteria cs = buildCriteria (CriteriaData ''and'' v (Some cs)))"
  by (simp add: buildSearchCriteria_def buildCriteria_composite)

theorem implicit_and_witness:
  "buildSearchCriteria
     [CriteriaData ''name'' (Some ''doc'') None, CriteriaData ''type'' (Some ''file'') None] =
     Inr (AndSearchCriteria [NameSearchCriteria (Some ''doc''), TypeSearchCriteria (Some ''file'')]) \<and>
   buildCriteria (CriteriaData ''and'' None
     (Some [CriteriaData ''name'' (Some ''doc'') None, CriteriaData ''type'' (Some ''file'') None])) =
     Inr (AndSearchCriteria [NameSearchCriteria (Some ''doc''), TypeSearchCriteria (Some ''file'')])"
proof -
  let ?cs = "[CriteriaData ''name'' (Some ''doc'') None, CriteriaData ''type'' (Some ''file'') None]"
  have len: "length ?cs \<noteq> 1" by simp
  have b: "buildCriteria (CriteriaData ''and'' None (Some ?cs)) =
      Inr (AndSearchCriteria [NameSearchCriteria (Some ''doc''), TypeSearchCriteria (Some ''file'')])"
    by (simp add: buildCriteria_composite buildCriteria_leaf)
  from implicit_and [of _ ?cs None] len
  have "buildSearchCriteria ?cs = buildCriteria (CriteriaData ''and'' None (Some ?cs))"
    by blast
  with b show ?thesis by simp
qed


section \<open>Strings, criteria and the engine: basic facts\<close>

lemma startsWith_prefix: "startsWith s t \<longleftrightarrow> prefix t s"
  by (induction s t rule: startsWith.induct) auto

lemma str_includes_sublist: "str_includes s t \<longleftrightarrow> sublist t s"
  by (induction s) (auto simp: startsWith_prefix sublist_Cons_right)

lemma str_includes_iff: "str_includes s t \<longleftrightarrow> (\<exists>pre suf. s = pre @ t @ suf)"
  by (simp add: str_includes_sublist sublist_def)

lemma str_includes_empty: "str_includes s []"
  by (simp add: str_includes_sublist)

lemma str_includes_map:
  "str_includes (map f s) (map f t) \<longleftrightarrow>
     (\<exists>pre mid suf. s = pre @ mid @ suf \<and> map f mid = map f t)"
proof
  assume "str_includes (map f s) (map f t)"
  then obtain p q where "map f s = p @ map f t @ q"
    by (auto simp: str_includes_iff)
  then obtain pre rest where s: "s = pre @ rest" and rest: "map f t @ q = map f rest"
    unfolding map_eq_append_conv by blast
  from rest obtain mid suf where "rest = mid @ suf" and "map f t = map f mid"
    unfolding append_eq_map_conv by blast
  with s show "\<exists>pre mid suf. s = pre @ mid @ suf \<and> map f mid = map f t"
    by metis
next
  assume "\<exists>pre mid suf. s = pre @ mid @ suf \<and> map f mid = map f t"
  then obtain pre mid suf where "s = pre @ mid @ suf" and "map f mid = map f t"
    by blast
  then have "map f s = map f pre @ map f t @ map f suf"
    by simp
  then show "str_includes (map f s) (map f t)"
    unfolding str_includes_iff by blast
qed

lemma toLowerCase_from_no_sigma:
  "931 \<notin> set s \<Longrightarrow> toLowerCase_from preceding s = map lower_unit s"
  by (induction s arbitrary: preceding) auto

lemma toLowerCase_no_sigma: "931 \<notin> set s \<Longrightarrow> toLowerCase s = map lower_unit s"
  by (simp add: toLowerCase_def toLowerCase_from_no_sigma)

lemma toLowerCase_Nil: "toLowerCase [] = []"
  by (simp add: toLowerCase_def)

lemma lower_unit_same_letter:
  "u < 256 \<Longrightarrow> v < 256 \<Longrightarrow> lower_unit u = lower_unit v \<longleftrightarrow> same_letter u v"
  unfolding lower_unit_def same_letter_def capital_def by auto

lemma map_lower_unit_equal_ignoring_case:
  "\<forall>u \<in> set s. u < 256 \<Longrightarrow> \<forall>u \<in> set t. u < 256 \<Longrightarrow>
     map lower_unit s = map lower_unit t \<longleftrightarrow> equal_ignoring_case s t"
proof (induction s arbitrary: t)
  case Nil
  then show ?case by (simp add: equal_ignoring_case_def)
next
  case (Cons u s)
  show ?case
  proof (cases t)
    case Nil
    then show ?thesis by (simp add: equal_ignoring_case_def)
  next
    case (Cons v t')
    with Cons.prems have "u < 256" "v < 256" by simp_all
    then have "lower_unit u = lower_unit v \<longleftrightarrow> same_letter u v"
      by (rule lower_unit_same_letter)
    moreover have "map lower_unit s = map lower_unit t' \<longleftrightarrow> equal_ignoring_case s t'"
      using Cons.IH [of t'] Cons.prems Cons by simp
    ultimately show ?thesis
      using Cons by (simp add: equal_ignoring_case_def)
  qed
qed




lemma every_execute_no_throw:
  "\<forall>c \<in> set cs. \<exists>b. execute c x = Inr b \<Longrightarrow>
     every_execute cs x = Inr (\<forall>c \<in> set cs. execute c x = Inr True)"
  by (induction cs) (auto split: sum.splits)

lemma string_queries_list_iff: "string_queries_list cs \<longleftrightarrow> (\<forall>c \<in> set cs. string_queries c)"
  by (induction cs) auto

lemma string_queries_total:
  "string_queries c \<Longrightarrow> \<exists>b. execute c x = Inr b"
  "string_queries_list cs \<Longrightarrow> (\<exists>b. every_execute cs x = Inr b) \<and> (\<exists>b. some_execute cs x = Inr b)"
proof (induction c and cs rule: string_queries_string_queries_list.induct)
  case (8 c cs)
  then show ?case by (auto split: sum.splits)
qed auto

lemma SearchEngine_search_no_throw:
  "\<forall>x \<in> set xs. \<exists>b. execute c x = Inr b \<Longrightarrow>
     SearchEngine_search xs c = Inr (filter (\<lambda>x. execute c x = Inr True) xs)"
  by (induction xs) (auto split: sum.splits)

lemma SearchEngine_search_Inr:
  "SearchEngine_search xs c = Inr ys \<Longrightarrow>
     (\<forall>x \<in> set xs. \<exists>b. execute c x = Inr b) \<and> ys = filter (\<lambda>x. execute c x = Inr True) xs"
  by (induction xs arbitrary: ys) (auto split: sum.splits if_splits)




section \<open>The search criteria and the engine\<close>








lemma NameSearch_execute:
  "execute (NameSearch (Some t)) x =
     Inr (\<exists>pre suf. toLowerCase (getName x) = pre @ toLowerCase t @ suf)"
  by (simp add: str_includes_iff)

lemma NameSearch_latin1:
  assumes "\<forall>u \<in> set (getName x) \<union> set t. u < 256"
  shows "execute (NameSearch (Some t)) x =
     Inr (\<exists>pre mid suf. getName x = pre @ mid @ suf \<and> equal_ignoring_case mid t)"
proof -
  have n: "931 \<notin> set (getName x)"
  proof
    assume "931 \<in> set (getName x)"
    with assms have "(931::nat) < 256" by blast
    then show False by simp
  qed
  have t: "931 \<notin> set t"
  proof
    assume "931 \<in> set t"
    with assms have "(931::nat) < 256" by blast
    then show False by simp
  qed
  have "(\<exists>pre mid suf. getName x = pre @ mid @ suf \<and> map lower_unit mid = map lower_unit t)
      \<longleftrightarrow> (\<exists>pre mid suf. getName x = pre @ mid @ suf \<and> equal_ignoring_case mid t)"
  proof -
    have "map lower_unit mid = map lower_unit t \<longleftrightarrow> equal_ignoring_case mid t"
      if "getName x = pre @ mid @ suf" for pre mid suf
    proof (rule map_lower_unit_equal_ignoring_case)
      show "\<forall>u \<in> set mid. u < 256" using assms that by auto
      show "\<forall>u \<in> set t. u < 256" using assms by auto
    qed
    then show ?thesis by blast
  qed
  then show ?thesis
    by (simp add: toLowerCase_no_sigma [OF n] toLowerCase_no_sigma [OF t] str_includes_map)
qed

text \<open>
  C5. \<open>NameSearchCriteria.execute\<close> never throws on a string query; it returns whether the
  lower-cased query occurs in the lower-cased name. When the name and the query are made
  of code units below 256, this is whether some substring of the name equals the query
  up to the case of the letters. With the empty query it returns true on every item.
\<close>

theorem NameSearch_case_insensitive:
  "execute (NameSearch (Some t)) x =
     Inr (\<exists>pre suf. toLowerCase (getName x) = pre @ toLowerCase t @ suf) \<and>
   ((\<forall>u \<in> set (getName x) \<union> set t. u < 256) \<longrightarrow>
      execute (NameSearch (Some t)) x =
        Inr (\<exists>pre mid suf. getName x = pre @ mid @ suf \<and> equal_ignoring_case mid t)) \<and>
   execute (NameSearch (Some [])) x = Inr True"
proof (intro conjI impI)
  show "execute (NameSearch (Some t)) x =
     Inr (\<exists>pre suf. toLowerCase (getName x) = pre @ toLowerCase t @ suf)"
    by (rule NameSearch_execute)
  show "execute (NameSearch (Some t)) x =
        Inr (\<exists>pre mid suf. getName x = pre @ mid @ suf \<and> equal_ignoring_case mid t)"
    if "\<forall>u \<in> set (getName x) \<union> set t. u < 256"
    using that by (rule NameSearch_latin1)
  show "execute (NameSearch (Some [])) x = Inr True"
    by (simp add: toLowerCase_Nil str_includes_empty)
qed

theorem NameSearch_case_insensitive_witness:
  "execute (NameSearch (Some (units ''DOC''))) (SearchableFolder (mockFolders ! 0)) = Inr True \<and>
   getName (SearchableFolder (mockFolders ! 0)) = units ''Doc'' @ units ''uments'' \<and>
   equal_ignoring_case (units ''Doc'') (units ''DOC'') \<and>
   execute (NameSearch (Some (units ''DOCS''))) (SearchableFolder (mockFolders ! 0)) = Inr False"
proof -
  let ?x = "SearchableFolder (mockFolders ! 0)"
  have name: "getName ?x = units ''Doc'' @ units ''uments''"
    by code_simp
  have eq: "equal_ignoring_case (units ''Doc'') (units ''DOC'')"
    by code_simp
  have small: "\<forall>u \<in> set (getName ?x) \<union> set (units ''DOC''). u < 256"
    by code_simp
  from name eq have "\<exists>pre mid suf. getName ?x = pre @ mid @ suf \<and>
      equal_ignoring_case mid (units ''DOC'')"
    by (metis append_Nil)
  then have ex: "(\<exists>pre mid suf. getName ?x = pre @ mid @ suf \<and>
      equal_ignoring_case mid (units ''DOC'')) = True"
    by simp
  have e: "execute (NameSearch (Some (units ''DOC''))) ?x =
      Inr (\<exists>pre mid suf. getName ?x = pre @ mid @ suf \<and> equal_ignoring_case mid (units ''DOC''))"
    using NameSearch_case_insensitive [of "units ''DOC''" ?x, THEN conjunct2, THEN conjunct1] small
    by (rule mp)
  have 1: "execute (NameSearch (Some (units ''DOC''))) ?x = Inr True"
    unfolding e ex by (rule refl)
  have 2: "execute (NameSearch (Some (units ''DOCS''))) ?x = Inr False"
    by code_simp
  from 1 name eq 2 show ?thesis by blast
qed

text \<open>
  Beyond code unit 255 the test is not that of a substring up to case: lower-casing
  depends on the context. The capital sigma that ends the name is lower-cased to the
  final small sigma, the query made of the capital sigma alone to the small sigma, and
  the name does not match the query although the query occurs in it as it is.
\<close>

theorem NameSearch_misses_capital_sigma:
  "getName (SearchableFolder alpha_sigma_folder) = [913] @ sigma @ [] \<and>
   execute (NameSearch (Some sigma)) (SearchableFolder alpha_sigma_folder) = Inr False \<and>
   toLowerCase (getName (SearchableFolder alpha_sigma_folder)) = [945, 962] \<and>
   toLowerCase sigma = [963]"
  by code_simp


section \<open>The search service\<close>


lemma promise_all_Inr: "promise_all first (Inr a) (Inr b) = Inr (a, b)"
  by (simp add: promise_all_def)

lemma promise_all_eq_Inr:
  "promise_all first folders files = Inr (a, b) \<longleftrightarrow> folders = Inr a \<and> files = Inr b"
  by (cases folders; cases files) (simp_all add: promise_all_def)

lemma toSearchResults_rows:
  "\<exists>converted. toSearchResults (filter P (map SearchableFolder fs @ map SearchableFile gs)) =
     Inr converted"
proof -
  have "\<exists>converted. toSearchResults xs = Inr converted"
    if "\<forall>x \<in> set xs. (\<exists>f. x = SearchableFolder f) \<or> (\<exists>g. x = SearchableFile g)" for xs
    using that by (induction xs rule: toSearchResults.induct) auto
  then show ?thesis by (auto intro!: \<open>\<And>xs. _ \<Longrightarrow> \<exists>converted. toSearchResults xs = Inr converted\<close>)
qed





lemma SearchService_search_totalCount:
  "fst (SearchService_search svc q options) = Inr r \<Longrightarrow> totalCount r = length (items r)"
  by (auto simp: SearchService_search_def Let_def split: sum.splits prod.splits)

lemma SearchService_advancedSearch_fetches:
  "snd (SearchService_advancedSearch svc criteria) = [GetFolders, GetFiles]"
  by (simp add: SearchService_advancedSearch_def)

lemma SearchService_advancedSearch_Inr:
  assumes "fst (SearchService_advancedSearch svc criteria) = Inr r"
  shows "\<exists>fs gs results.
     getFolders (dataProvider svc) = Inr fs \<and> getFiles (dataProvider svc) = Inr gs \<and>
     searchEngine svc (map SearchableFolder fs @ map SearchableFile gs) criteria = Inr results \<and>
     toSearchResults results = Inr (items r) \<and>
     totalCount r = length (items r) \<and> query r = units ''Advanced Search''"
  using assms
  by (auto simp: SearchService_advancedSearch_def Let_def promise_all_eq_Inr
      split: sum.splits prod.splits)

lemma SearchService_advancedSearch_result:
  assumes "getFolders provider = Inr fs" and "getFiles provider = Inr gs"
    and "\<forall>x \<in> set (map SearchableFolder fs @ map SearchableFile gs).
           \<exists>b. execute criteria x = Inr b"
  shows "\<exists>r. fst (SearchService_advancedSearch (SearchService provider) criteria) = Inr r \<and>
     toSearchResults (filter (\<lambda>x. execute criteria x = Inr True)
        (map SearchableFolder fs @ map SearchableFile gs)) = Inr (items r)"
proof -
  let ?xs = "map SearchableFolder fs @ map SearchableFile gs"
  let ?P = "\<lambda>x. execute criteria x = Inr True"
  have e: "SearchEngine_search ?xs criteria = Inr (filter ?P ?xs)"
    using assms(3) by (rule SearchEngine_search_no_throw)
  obtain converted where c: "toSearchResults (filter ?P ?xs) = Inr converted"
    using toSearchResults_rows by blast
  have "fst (SearchService_advancedSearch (SearchService provider) criteria) =
      Inr \<lparr>items = converted, totalCount = length converted, query = units ''Advanced Search''\<rparr>"
    by (simp only: SearchService_advancedSearch_def SearchService_def Let_def fst_conv
        search_service.simps data_provider.simps assms(1,2) promise_all_Inr sum.case prod.case e c)
  with c show ?thesis by simp
qed

lemma SearchService_advancedSearch_throws:
  assumes "getFolders provider = Inr fs" and "getFiles provider = Inr gs"
    and "x \<in> set (map SearchableFolder fs @ map SearchableFile gs)"
    and "execute criteria x = Inl e"
  shows "\<exists>e'. fst (SearchService_advancedSearch (SearchService provider) criteria) = Inl e'"
proof -
  let ?xs = "map SearchableFolder fs @ map SearchableFile gs"
  have "\<not> (\<exists>ys. SearchEngine_search ?xs criteria = Inr ys)"
  proof
    assume "\<exists>ys. SearchEngine_search ?xs criteria = Inr ys"
    then obtain ys where "SearchEngine_search ?xs criteria = Inr ys" ..
    then have "\<forall>x \<in> set ?xs. \<exists>b. execute criteria x = Inr b"
      by (rule SearchEngine_search_Inr [THEN conjunct1])
    with assms(3,4) show False by force
  qed
  then obtain e' where e: "SearchEngine_search ?xs criteria = Inl e'"
    by (cases "SearchEngine_search ?xs criteria") auto
  have "fst (SearchService_advancedSearch (SearchService provider) criteria) = Inl e'"
    by (simp only: SearchService_advancedSearch_def SearchService_def Let_def fst_conv
        search_service.simps data_provider.simps assms(1,2) promise_all_Inr sum.case prod.case e)
  then show ?thesis ..
qed



text \<open>
  C7. \<open>SearchService.advancedSearch(criteria)\<close> calls \<open>getFolders\<close> and \<open>getFiles\<close>, both,
  whatever the criteria: it takes no options. Whenever it returns a result, both fetches
  succeeded, the engine was run on all the folders followed by all the files with the
  criteria object as supplied, the items are the conversions of what the engine returned,
  and the \<open>query\<close> field is the fixed string \<open>Advanced Search\<close>, the same for every
  criteria. With the library's engine it does return when both fetches succeed and the
  criteria throw on no candidate, and the items are then the conversions of exactly the
  candidates on which the criteria are true.
\<close>

theorem advanced_search:
  "snd (SearchService_advancedSearch svc criteria) = [GetFolders, GetFiles] \<and>
   (\<forall>r. fst (SearchService_advancedSearch svc criteria) = Inr r \<longrightarrow>
      query r = units ''Advanced Search'' \<and>
      (\<exists>folders files results.
         getFolders (dataProvider svc) = Inr folders \<and>
         getFiles (dataProvider svc) = Inr files \<and>
         searchEngine svc (map SearchableFolder folders @ map SearchableFile files) criteria =
           Inr results \<and>
         toSearchResults results = Inr (items r))) \<and>
   (getFolders provider = Inr fs \<and> getFiles provider = Inr gs \<and>
    (\<forall>x \<in> set (map SearchableFolder fs @ map SearchableFile gs).
       \<exists>b. execute criteria x = Inr b) \<longrightarrow>
    (\<exists>r. fst (SearchService_advancedSearch (SearchService provider) criteria) = Inr r \<and>
       toSearchResults (filter (\<lambda>x. execute criteria x = Inr True)
          (map SearchableFolder fs @ map SearchableFile gs)) = Inr (items r) \<and>
       query r = units ''Advanced Search''))"
proof -
  have 1: "query r = units ''Advanced Search'' \<and>
      (\<exists>folders files results.
         getFolders (dataProvider svc) = Inr folders \<and>
         getFiles (dataProvider svc) = Inr files \<and>
         searchEngine svc (map SearchableFolder folders @ map SearchableFile files) criteria =
           Inr results \<and>
         toSearchResults results = Inr (items r))"
    if "fst (SearchService_advancedSearch svc criteria) = Inr r" for r
    using SearchService_advancedSearch_Inr [OF that] by blast
  have 2: "\<exists>r. fst (SearchService_advancedSearch (SearchService provider) criteria) = Inr r \<and>
       toSearchResults (filter (\<lambda>x. execute criteria x = Inr True)
          (map SearchableFolder fs @ map SearchableFile gs)) = Inr (items r) \<and>
       query r = units ''Advanced Search''"
    if h: "getFolders provider = Inr fs \<and> getFiles provider = Inr gs \<and>
      (\<forall>x \<in> set (map SearchableFolder fs @ map SearchableFile gs).
         \<exists>b. execute criteria x = Inr b)"
  proof -
    from h have a: "getFolders provider = Inr fs" and b: "getFiles provider = Inr gs"
      and c: "\<forall>x \<in> set (map SearchableFolder fs @ map SearchableFile gs).
         \<exists>b. execute criteria x = Inr b"
      by simp_all
    from SearchService_advancedSearch_result [OF a b c] obtain r where
      r: "fst (SearchService_advancedSearch (SearchService provider) criteria) = Inr r"
      and i: "toSearchResults (filter (\<lambda>x. execute criteria x = Inr True)
          (map SearchableFolder fs @ map SearchableFile gs)) = Inr (items r)"
      by (elim exE conjE)
    from SearchService_advancedSearch_Inr [OF r]
    have "query r = units ''Advanced Search''" by (elim exE conjE)
    with r i show ?thesis by (intro exI [of _ r] conjI)
  qed
  from 1 have a: "\<forall>r. fst (SearchService_advancedSearch svc criteria) = Inr r \<longrightarrow>
      query r = units ''Advanced Search'' \<and>
      (\<exists>folders files results.
         getFolders (dataProvider svc) = Inr folders \<and>
         getFiles (dataProvider svc) = Inr files \<and>
         searchEngine svc (map SearchableFolder folders @ map SearchableFile files) criteria =
           Inr results \<and>
         toSearchResults results = Inr (items r))"
    by (intro allI impI)
  from 2 have b: "getFolders provider = Inr fs \<and> getFiles provider = Inr gs \<and>
    (\<forall>x \<in> set (map SearchableFolder fs @ map SearchableFile gs).
       \<exists>b. execute criteria x = Inr b) \<longrightarrow>
    (\<exists>r. fst (SearchService_advancedSearch (SearchService provider) criteria) = Inr r \<and>
       toSearchResults (filter (\<lambda>x. execute criteria x = Inr True)
          (map SearchableFolder fs @ map SearchableFile gs)) = Inr (items r) \<and>
       query r = units ''Advanced Search'')"
    by (intro impI)
  show ?thesis
    by (rule conjI [OF SearchService_advancedSearch_fetches conjI [OF a b]])
qed

theorem advanced_search_witness:
  "snd (SearchService_advancedSearch (SearchService MockSearchDataProvider)
     (OrSearch [AndSearch [TypeSearch (Some (units ''folder'')), NameSearch (Some (units ''Images''))],
                AndSearch [TypeSearch (Some (units ''file'')), PathSearch (Some (units ''Videos''))]])) =
     [GetFolders, GetFiles] \<and>
   (\<exists>r. fst (SearchService_advancedSearch (SearchService MockSearchDataProvider)
     (OrSearch [AndSearch [TypeSearch (Some (units ''folder'')), NameSearch (Some (units ''Images''))],
                AndSearch [TypeSearch (Some (units ''file'')), PathSearch (Some (units ''Videos''))]])) =
        Inr r \<and>
      map (\<lambda>i. (item_type i, item_name i)) (items r) =
        [(units ''folder'', units ''Images''), (units ''file'', units ''video.mp4'')] \<and>
      query r = units ''Advanced Search'')"
proof -
  let ?svc = "SearchService MockSearchDataProvider"
  let ?c = "OrSearch [AndSearch [TypeSearch (Some (units ''folder'')),
                                 NameSearch (Some (units ''Images''))],
                      AndSearch [TypeSearch (Some (units ''file'')),
                                 PathSearch (Some (units ''Videos''))]]"
  note a = advanced_search [of ?svc ?c MockSearchDataProvider mockFolders mockFiles]
  have g: "getFolders MockSearchDataProvider = Inr mockFolders"
    "getFiles MockSearchDataProvider = Inr mockFiles"
    by (simp_all add: MockSearchDataProvider_def)
  have "string_queries ?c" by simp
  then have t: "\<forall>x \<in> set (map SearchableFolder mockFolders @ map SearchableFile mockFiles).
      \<exists>b. execute ?c x = Inr b"
    by (intro ballI string_queries_total(1))
  have e: "map_sum id (map (\<lambda>i. (item_type i, item_name i)))
      (toSearchResults (filter (\<lambda>x. execute ?c x = Inr True)
         (map SearchableFolder mockFolders @ map SearchableFile mockFiles))) =
      Inr [(units ''folder'', units ''Images''), (units ''file'', units ''video.mp4'')]"
    by code_simp
  from g t have "getFolders MockSearchDataProvider = Inr mockFolders \<and>
      getFiles MockSearchDataProvider = Inr mockFiles \<and>
      (\<forall>x \<in> set (map SearchableFolder mockFolders @ map SearchableFile mockFiles).
         \<exists>b. execute ?c x = Inr b)"
    by (intro conjI)
  from a [THEN conjunct2, THEN conjunct2, THEN mp, OF this] obtain r where
    r: "fst (SearchService_advancedSearch ?svc ?c) = Inr r"
    and i: "toSearchResults (filter (\<lambda>x. execute ?c x = Inr True)
          (map SearchableFolder mockFolders @ map SearchableFile mockFiles)) = Inr (items r)"
    and q: "query r = units ''Advanced Search''"
    by (elim exE conjE)
  from e have "map (\<lambda>i. (item_type i, item_name i)) (items r) =
      [(units ''folder'', units ''Images''), (units ''file'', units ''video.mp4'')]"
    by (simp only: i map_sum.simps sum.inject)
  with r q have "\<exists>r. fst (SearchService_advancedSearch ?svc ?c) = Inr r \<and>
      map (\<lambda>i. (item_type i, item_name i)) (items r) =
        [(units ''folder'', units ''Images''), (units ''file'', units ''video.mp4'')] \<and>
      query r = units ''Advanced Search''"
    by (intro exI [of _ r] conjI)
  with a [THEN conjunct1] show ?thesis by (intro conjI)
qed

text \<open>
  C8. In every result that \<open>SearchService.search\<close> or \<open>SearchService.advancedSearch\<close>
  returns, with any data provider and any engine, \<open>totalCount\<close> is the length of \<open>items\<close>.
\<close>

theorem totalCount_is_length:
  "(\<forall>r. fst (SearchService_search svc q options) = Inr r \<longrightarrow>
      totalCount r = length (items r)) \<and>
   (\<forall>r. fst (SearchService_advancedSearch svc criteria) = Inr r \<longrightarrow>
      totalCount r = length (items r))"
proof -
  have "totalCount r = length (items r)"
    if "fst (SearchService_advancedSearch svc criteria) = Inr r" for r
    using SearchService_advancedSearch_Inr [OF that] by (elim exE conjE)
  with SearchService_search_totalCount [of svc q options] show ?thesis
    by blast
qed

theorem totalCount_is_length_witness:
  "(\<exists>r. fst (SearchService_search (SearchService MockSearchDataProvider) (units ''video'')
           no_options) = Inr r \<and> totalCount r = length (items r) \<and> totalCount r = 2) \<and>
   (\<exists>r. fst (SearchService_advancedSearch (SearchService MockSearchDataProvider)
           (TypeSearch (Some (units ''file'')))) = Inr r \<and>
         totalCount r = length (items r) \<and> totalCount r = 3)"
proof -
  let ?s = "SearchService_search (SearchService MockSearchDataProvider) (units ''video'') no_options"
  let ?a = "SearchService_advancedSearch (SearchService MockSearchDataProvider)
              (TypeSearch (Some (units ''file'')))"
  note t = totalCount_is_length [of "SearchService MockSearchDataProvider" "units ''video''"
      no_options "TypeSearch (Some (units ''file''))"]
  have s: "map_sum id totalCount (fst ?s) = Inr 2"
    by code_simp
  have a: "map_sum id totalCount (fst ?a) = Inr 3"
    by code_simp
  from s obtain r where r: "fst ?s = Inr r" and n: "totalCount r = 2"
    by (cases "fst ?s") auto
  from a obtain r' where r': "fst ?a = Inr r'" and n': "totalCount r' = 3"
    by (cases "fst ?a") auto
  from t [THEN conjunct1, THEN spec, THEN mp, OF r] r n
  have 1: "\<exists>r. fst ?s = Inr r \<and> totalCount r = length (items r) \<and> totalCount r = 2"
    by (intro exI [of _ r] conjI)
  from t [THEN conjunct2, THEN spec, THEN mp, OF r'] r' n'
  have 2: "\<exists>r. fst ?a = Inr r \<and> totalCount r = length (items r) \<and> totalCount r = 3"
    by (intro exI [of _ r'] conjI)
  from 1 2 show ?thesis by (intro conjI)
qed


section \<open>The routes\<close>

lemma trim_empty_iff: "trim s = [] \<longleftrightarrow> (\<forall>c \<in> set s. isWhiteSpace c)"
proof -
  have "trim s = [] \<longleftrightarrow> (\<forall>c \<in> set (dropWhile isWhiteSpace s). isWhiteSpace c)"
    by (simp add: trim_def dropWhile_eq_Nil_conv)
  also have "\<dots> \<longleftrightarrow> dropWhile isWhiteSpace s = []"
  proof
    assume a: "\<forall>c \<in> set (dropWhile isWhiteSpace s). isWhiteSpace c"
    show "dropWhile isWhiteSpace s = []"
    proof (rule ccontr)
      assume "dropWhile isWhiteSpace s \<noteq> []"
      then have "\<not> isWhiteSpace (hd (dropWhile isWhiteSpace s))"
        by (rule hd_dropWhile)
      moreover have "hd (dropWhile isWhiteSpace s) \<in> set (dropWhile isWhiteSpace s)"
        using \<open>dropWhile isWhiteSpace s \<noteq> []\<close> by simp
      ultimately show False using a by blast
    qed
  next
    assume "dropWhile isWhiteSpace s = []"
    then show "\<forall>c \<in> set (dropWhile isWhiteSpace s). isWhiteSpace c"
      by (simp only: list.set ball_empty)
  qed
  also have "\<dots> \<longleftrightarrow> (\<forall>c \<in> set s. isWhiteSpace c)"
    by (simp add: dropWhile_eq_Nil_conv)
  finally show ?thesis .
qed

lemma get_search_blank:
  "\<forall>c \<in> set s. isWhiteSpace c \<Longrightarrow>
     get_search svc (Some s) files folders path =
       (Failure ''Search query is required and cannot be empty'', [])"
  by (auto simp: get_search_def Let_def trim_empty_iff)

lemma get_search_called:
  assumes "Search s opts \<in> set (snd (get_search svc q files folders path))"
  shows "q = Some s \<and> s \<noteq> [] \<and> (\<exists>c \<in> set s. \<not> isWhiteSpace c)"
proof (cases q)
  case None
  with assms show ?thesis by (simp add: get_search_def)
next
  case (Some t)
  show ?thesis
  proof (cases "t = [] \<or> trim t = []")
    case True
    with assms Some show ?thesis by (simp add: get_search_def)
  next
    case False
    with assms Some have "s = t"
      by (auto simp: get_search_def Let_def split: sum.splits)
    with False Some show ?thesis
      by (auto simp: trim_empty_iff)
  qed
qed

lemma post_advanced_built:
  "BuildSearchCriteria cs \<in> set (snd (post_advanced svc c)) \<Longrightarrow> c = JArray cs \<and> cs \<noteq> []"
  by (cases c) (auto simp: post_advanced_def split: if_splits sum.splits)

lemma post_advanced_called:
  "AdvancedSearch x \<in> set (snd (post_advanced svc c)) \<Longrightarrow>
     \<exists>cs. c = JArray cs \<and> cs \<noteq> [] \<and> buildSearchCriteria cs = Inr x"
  by (cases c) (auto simp: post_advanced_def split: if_splits sum.splits)

text \<open>
  C9. \<open>GET /\<close> with a \<open>q\<close> that is empty or made of white space only answers
  \<open>{success: false, error: "Search query is required and cannot be empty"}\<close> and does not
  call the search service. A request without \<open>q\<close> does not get this answer: the route's
  schema refuses it before the handler runs, and the search service is not called either.
  Whenever the route calls the service, the query it passes is the \<open>q\<close> it received, and
  it is not empty and not blank: the empty term never reaches the criteria of the library
  through this route.
\<close>

theorem get_search_requires_query:
  "(q = None \<longrightarrow> route_get_search svc q files folders path = (Refused, [])) \<and>
   ((\<exists>s. q = Some s \<and> (\<forall>c \<in> set s. isWhiteSpace c)) \<longrightarrow>
      route_get_search svc q files folders path =
        (Handled (Failure ''Search query is required and cannot be empty''), [])) \<and>
   route_get_search svc (Some []) files folders path =
     (Handled (Failure ''Search query is required and cannot be empty''), []) \<and>
   (\<forall>s opts. Search s opts \<in> set (snd (route_get_search svc q files folders path)) \<longrightarrow>
      q = Some s \<and> s \<noteq> [] \<and> (\<exists>c \<in> set s. \<not> isWhiteSpace c))"
proof -
  have absent: "q = None \<longrightarrow> route_get_search svc q files folders path = (Refused, [])"
    by (simp add: route_get_search_def)
  have blank: "(\<exists>s. q = Some s \<and> (\<forall>c \<in> set s. isWhiteSpace c)) \<longrightarrow>
      route_get_search svc q files folders path =
        (Handled (Failure ''Search query is required and cannot be empty''), [])"
    by (auto simp: route_get_search_def get_search_blank)
  have empty: "route_get_search svc (Some []) files folders path =
     (Handled (Failure ''Search query is required and cannot be empty''), [])"
    by (simp add: route_get_search_def get_search_blank)
  have called: "\<forall>s opts. Search s opts \<in> set (snd (route_get_search svc q files folders path)) \<longrightarrow>
      q = Some s \<and> s \<noteq> [] \<and> (\<exists>c \<in> set s. \<not> isWhiteSpace c)"
  proof (intro allI impI)
    fix s opts
    assume a: "Search s opts \<in> set (snd (route_get_search svc q files folders path))"
    then have "Search s opts \<in> set (snd (get_search svc q files folders path))"
      by (cases q) (simp_all add: route_get_search_def)
    then show "q = Some s \<and> s \<noteq> [] \<and> (\<exists>c \<in> set s. \<not> isWhiteSpace c)"
      by (rule get_search_called)
  qed
  show ?thesis
    by (rule conjI [OF absent conjI [OF blank conjI [OF empty called]]])
qed

theorem get_search_requires_query_witness:
  "route_get_search (controller_service MockSearchDataProvider) (Some ''  '') None None None =
     (Handled (Failure ''Search query is required and cannot be empty''), []) \<and>
   Search ''doc'' \<lparr>includeFiles = Some True, includeFolders = Some True, searchInPath = Some True\<rparr>
     \<in> set (snd (route_get_search (controller_service MockSearchDataProvider)
         (Some ''doc'') None None None)) \<and>
   (\<exists>c \<in> set ''doc''. \<not> isWhiteSpace c)"
proof -
  let ?svc = "controller_service MockSearchDataProvider"
  let ?opts = "\<lparr>includeFiles = Some True, includeFolders = Some True, searchInPath = Some True\<rparr>"
  have "\<forall>c \<in> set ''  ''. isWhiteSpace c"
    by (simp add: isWhiteSpace_def)
  then have "\<exists>s. Some ''  '' = Some s \<and> (\<forall>c \<in> set s. isWhiteSpace c)"
    by simp
  with get_search_requires_query [of "Some ''  ''" ?svc None None None, THEN conjunct2, THEN conjunct1]
  have 1: "route_get_search ?svc (Some ''  '') None None None =
      (Handled (Failure ''Search query is required and cannot be empty''), [])"
    by (rule mp)
  have 2: "Search ''doc'' ?opts \<in> set (snd (route_get_search ?svc (Some ''doc'') None None None))"
    by (simp add: route_get_search_def get_search_def Let_def trim_def isWhiteSpace_def
        split: sum.splits)
  with get_search_requires_query [of "Some ''doc''" ?svc None None None, THEN conjunct2,
      THEN conjunct2, THEN conjunct2, THEN spec, THEN spec]
  have "Some ''doc'' = Some ''doc'' \<and> ''doc'' \<noteq> [] \<and> (\<exists>c \<in> set ''doc''. \<not> isWhiteSpace c)"
    by (rule mp)
  then have 3: "\<exists>c \<in> set ''doc''. \<not> isWhiteSpace c"
    by (elim conjE)
  show ?thesis
    by (rule conjI [OF 1 conjI [OF 2 3]])
qed

theorem get_search_absent_query_refused:
  "route_get_search (controller_service MockSearchDataProvider) None None None None =
     (Refused, []) \<and>
   fst (route_get_search (controller_service MockSearchDataProvider) None None None None) \<noteq>
     Handled (Failure ''Search query is required and cannot be empty'')"
  by (simp add: route_get_search_def)

text \<open>
  C10. \<open>POST /advanced\<close> with an empty array as \<open>criteria\<close> answers
  \<open>{success: false, error: "Search criteria are required"}\<close>, builds nothing and does not
  call the search service. A request whose body is absent, or whose \<open>criteria\<close> is absent or
  not an array, does not get this answer: the route's schema refuses it before the handler
  runs, and nothing is built or called either. Whenever the route calls the builder, it
  passes the array it received, which is not empty; and whenever it calls the service, it
  passes what the builder built from that array.
\<close>

theorem post_advanced_requires_criteria:
  "((body = None \<or> (\<exists>c. body = Some c \<and> \<not> isArray c)) \<longrightarrow>
      route_post_advanced svc body = (Refused, [])) \<and>
   route_post_advanced svc (Some (JArray [])) =
     (Handled (Failure ''Search criteria are required''), []) \<and>
   (\<forall>cs. BuildSearchCriteria cs \<in> set (snd (route_post_advanced svc body)) \<longrightarrow>
      body = Some (JArray cs) \<and> cs \<noteq> []) \<and>
   (\<forall>x. AdvancedSearch x \<in> set (snd (route_post_advanced svc body)) \<longrightarrow>
      (\<exists>cs. body = Some (JArray cs) \<and> cs \<noteq> [] \<and> buildSearchCriteria cs = Inr x))"
proof -
  have refused: "(body = None \<or> (\<exists>c. body = Some c \<and> \<not> isArray c)) \<longrightarrow>
      route_post_advanced svc body = (Refused, [])"
    by (auto simp: route_post_advanced_def)
  have empty: "route_post_advanced svc (Some (JArray [])) =
     (Handled (Failure ''Search criteria are required''), [])"
    by (simp add: route_post_advanced_def post_advanced_def)
  have built: "\<forall>cs. BuildSearchCriteria cs \<in> set (snd (route_post_advanced svc body)) \<longrightarrow>
      body = Some (JArray cs) \<and> cs \<noteq> []"
  proof (intro allI impI)
    fix cs
    assume "BuildSearchCriteria cs \<in> set (snd (route_post_advanced svc body))"
    then obtain c where c: "BuildSearchCriteria cs \<in> set (snd (post_advanced svc c))"
      and b: "body = Some c"
      by (cases body) (auto simp: route_post_advanced_def split: if_splits)
    from post_advanced_built [OF c] b show "body = Some (JArray cs) \<and> cs \<noteq> []"
      by simp
  qed
  have called: "\<forall>x. AdvancedSearch x \<in> set (snd (route_post_advanced svc body)) \<longrightarrow>
      (\<exists>cs. body = Some (JArray cs) \<and> cs \<noteq> [] \<and> buildSearchCriteria cs = Inr x)"
  proof (intro allI impI)
    fix x
    assume "AdvancedSearch x \<in> set (snd (route_post_advanced svc body))"
    then obtain c where c: "AdvancedSearch x \<in> set (snd (post_advanced svc c))"
      and b: "body = Some c"
      by (cases body) (auto simp: route_post_advanced_def split: if_splits)
    from post_advanced_called [OF c] b
    show "\<exists>cs. body = Some (JArray cs) \<and> cs \<noteq> [] \<and> buildSearchCriteria cs = Inr x"
      by auto
  qed
  show ?thesis
    by (rule conjI [OF refused conjI [OF empty conjI [OF built called]]])
qed

theorem post_advanced_requires_criteria_witness:
  "route_post_advanced (controller_service MockSearchDataProvider) (Some (JString ''name'')) =
     (Refused, []) \<and>
   BuildSearchCriteria [CriteriaData ''name'' (Some ''doc'') None] \<in> set (snd
     (route_post_advanced (controller_service MockSearchDataProvider)
        (Some (JArray [CriteriaData ''name'' (Some ''doc'') None])))) \<and>
   AdvancedSearch (NameSearchCriteria (Some ''doc'')) \<in> set (snd
     (route_post_advanced (controller_service MockSearchDataProvider)
        (Some (JArray [CriteriaData ''name'' (Some ''doc'') None])))) \<and>
   buildSearchCriteria [CriteriaData ''name'' (Some ''doc'') None] =
     Inr (NameSearchCriteria (Some ''doc''))"
proof -
  let ?svc = "controller_service MockSearchDataProvider"
  let ?cs = "[CriteriaData ''name'' (Some ''doc'') None]"
  have "Some (JString ''name'') = None \<or>
      (\<exists>c. Some (JString ''name'') = Some c \<and> \<not> isArray c)"
    by simp
  with post_advanced_requires_criteria [of "Some (JString ''name'')" ?svc, THEN conjunct1]
  have 1: "route_post_advanced ?svc (Some (JString ''name'')) = (Refused, [])"
    by (rule mp)
  have b: "buildSearchCriteria ?cs = Inr (NameSearchCriteria (Some ''doc''))"
    by (simp add: buildSearchCriteria_def buildCriteria_leaf)
  then have 3: "BuildSearchCriteria ?cs \<in> set (snd (route_post_advanced ?svc (Some (JArray ?cs))))"
    and 4: "AdvancedSearch (NameSearchCriteria (Some ''doc'')) \<in>
      set (snd (route_post_advanced ?svc (Some (JArray ?cs))))"
    by (simp_all add: route_post_advanced_def post_advanced_def split: sum.splits)
  from post_advanced_requires_criteria [of "Some (JArray ?cs)" ?svc, THEN conjunct2,
      THEN conjunct2, THEN conjunct2, THEN spec, THEN mp, OF 4]
  have "\<exists>cs. Some (JArray ?cs) = Some (JArray cs) \<and> cs \<noteq> [] \<and>
      buildSearchCriteria cs = Inr (NameSearchCriteria (Some ''doc''))" .
  then have 5: "buildSearchCriteria ?cs = Inr (NameSearchCriteria (Some ''doc''))"
    by simp
  show ?thesis
    by (rule conjI [OF 1 conjI [OF 3 conjI [OF 4 5]]])
qed

theorem post_advanced_refuses_without_array:
  "route_post_advanced (controller_service MockSearchDataProvider) None = (Refused, []) \<and>
   route_post_advanced (controller_service MockSearchDataProvider) (Some JUndefined) =
     (Refused, []) \<and>
   route_post_advanced (controller_service MockSearchDataProvider) (Some (JString ''name'')) =
     (Refused, []) \<and>
   fst (route_post_advanced (controller_service MockSearchDataProvider) (Some JUndefined)) \<noteq>
     Handled (Failure ''Search criteria are required'')"
  by (simp add: route_post_advanced_def)

text \<open>
  The two routes differ here: \<open>POST /advanced\<close> does not look at the value of a \<open>name\<close>
  description. It passes a name criterion with the empty term on to the service, and one
  without a term as well; on the latter \<open>execute\<close> throws, and the route answers with the
  message of the \<open>TypeError\<close>.
\<close>

lemma post_advanced_empty_term:
  "AdvancedSearch (NameSearchCriteria (Some [])) \<in>
     set (snd (route_post_advanced svc (Some (JArray [CriteriaData ''name'' (Some []) None]))))"
  by (simp add: route_post_advanced_def post_advanced_def buildSearchCriteria_def
      buildCriteria_leaf split: sum.splits)

lemma post_advanced_undefined_term:
  "route_post_advanced (controller_service MockSearchDataProvider)
     (Some (JArray [CriteriaData ''name'' None None])) =
     (Handled (Failure (message query_undefined)),
      [BuildSearchCriteria [CriteriaData ''name'' None None],
       AdvancedSearch (NameSearchCriteria None),
       ConsoleError ''Advanced search error:'' query_undefined])"
proof -
  have "fst (SearchService_advancedSearch (SearchService MockSearchDataProvider)
      (NameSearch None)) = Inl query_undefined"
    by (simp add: SearchService_advancedSearch_def SearchService_def MockSearchDataProvider_def
        promise_all_def mockFolders_def)
  then show ?thesis
    by (simp add: route_post_advanced_def post_advanced_def buildSearchCriteria_def
        buildCriteria_leaf controller_service_def query_undefined_def)
qed


section \<open>The test suite on the model\<close>

text \<open>
  The expectations of the repository's search tests, evaluated on the model. The code
  meets them but for the basic search for \<open>document\<close> with no options, where the tests
  expect the two items named \<open>Documents\<close> and \<open>document.pdf\<close>: the path criterion is on by
  default, and the folder \<open>/Documents/Images\<close> and the file
  \<open>/Documents/Images/photo.jpg\<close> match by their paths as well. With \<open>searchInPath\<close> false
  the search returns the two items of the tests.
\<close>

lemma test_engine_name:
  "map_sum id length (SearchEngine_search
     [SearchableFolder (mockFolders ! 0), SearchableFile (mockFiles ! 0)]
     (NameSearch (Some (units ''document'')))) = Inr 2"
  by code_simp

lemma test_composite:
  "map_sum id length (SearchEngine_search
     [SearchableFolder (mockFolders ! 0), SearchableFolder (mockFolders ! 1),
      SearchableFile (mockFiles ! 1)]
     (AndSearch [TypeSearch (Some (units ''folder'')),
                 PathSearch (Some (units ''Documents''))])) = Inr 2"
  by code_simp

lemma test_getId:
  "getId (SearchableFolder (mockFolders ! 0)) = units ''1'' \<and>
   getType (SearchableFile (mockFiles ! 0)) = units ''file''"
  by code_simp

lemma test_search_options:
  "map_sum id (\<lambda>r. map (\<lambda>i. (item_type i, item_name i)) (items r))
     (fst (SearchService_search (SearchService MockSearchDataProvider) (units ''photo'')
        \<lparr>includeFiles = Some True, includeFolders = Some False, searchInPath = Some True\<rparr>)) =
     Inr [(units ''file'', units ''photo.jpg'')]"
  by code_simp

lemma test_basic_search:
  "map_sum id (\<lambda>r. (map item_name (items r), totalCount r, query r))
     (fst (SearchService_search (SearchService MockSearchDataProvider) (units ''document'')
        no_options)) =
     Inr ([units ''Documents'', units ''Images'', units ''document.pdf'', units ''photo.jpg''],
          4, units ''document'') \<and>
   map_sum id (\<lambda>r. (map item_name (items r), totalCount r, query r))
     (fst (SearchService_search (SearchService MockSearchDataProvider) (units ''document'')
        \<lparr>includeFiles = None, includeFolders = None, searchInPath = Some False\<rparr>)) =
     Inr ([units ''Documents'', units ''document.pdf''], 2, units ''document'')"
  by code_simp

text \<open>A file of size 0 carries no size in its result item.\<close>

lemma size_zero_dropped:
  "item_size (SearchableFile_toSearchResult (file\<lparr>file_size := Some 0\<rparr>)) = None"
  by (simp add: SearchableFile_toSearchResult_def)

text \<open>When both fetches reject, the search rejects with the rejection that came first.\<close>

lemma both_fetches_reject:
  "fst (SearchService_advancedSearch
     (SearchService \<lparr>getFolders = Inl e1, getFiles = Inl e2, settlesFirst = first\<rparr>) criteria) =
     Inl (if first = GetFolders then e1 else e2)"
  by (simp add: SearchService_advancedSearch_def SearchService_def promise_all_def)

end
